theory Spec2Isabelle
  imports Complex_Main "HOL-Library.Word" "HOL-Library.AList"
begin

section \<open>Python values, strings and exceptions\<close>

text \<open>
  Text is a \<open>string\<close>; each \<open>char\<close> stands for one character of a Python \<open>str\<close>
  (a code point below 256). \<open>isspace\<close> is Python's \<open>str.isspace\<close> on these code
  points and \<open>strip\<close> is \<open>str.strip()\<close> without arguments.
\<close>

definition isspace :: "char \<Rightarrow> bool" where
  "isspace c =
     (let n = (of_char c :: nat)
      in (9 \<le> n \<and> n \<le> 13) \<or> (28 \<le> n \<and> n \<le> 32) \<or> n = 133 \<or> n = 160)"

definition strip :: "string \<Rightarrow> string" where
  "strip s = rev (dropWhile isspace (rev (dropWhile isspace s)))"

text \<open>\<open>(x or "")\<close> for an \<open>x\<close> that is a \<open>str\<close> or \<open>None\<close>.\<close>

fun or_empty :: "string option \<Rightarrow> string" where
  "or_empty None = []"
| "or_empty (Some t) = t"

text \<open>
  The exceptions of the program. \<open>External\<close> is any exception raised inside a library
  call (opening a PDF, rendering a page, a request to the model or embedding service).
\<close>

datatype error =
    RuntimeError string
  | ValueError string
  | TypeError string
  | External string

text \<open>
  Values as \<open>json.loads\<close> and \<open>request.get_json\<close> return them, and as a call passes
  them by keyword. A float is the rational number it denotes.
\<close>

datatype pyval =
    PNone
  | PBool bool
  | PInt int
  | PFloat rat
  | PStr string
  | PList "pyval list"
  | PDict "(string \<times> pyval) list"

text \<open>Python's truth value of an object, as \<open>or\<close> and \<open>if\<close> test it.\<close>

fun truthy :: "pyval \<Rightarrow> bool" where
  "truthy PNone = False"
| "truthy (PBool b) = b"
| "truthy (PInt i) = (i \<noteq> 0)"
| "truthy (PFloat r) = (r \<noteq> 0)"
| "truthy (PStr t) = (t \<noteq> [])"
| "truthy (PList xs) = (xs \<noteq> [])"
| "truthy (PDict kvs) = (kvs \<noteq> [])"

text \<open>
  \<open>d.get(key, default)\<close>: only a dict has the method; on any other value the
  attribute lookup raises AttributeError, which is \<open>None\<close> here.
\<close>

fun py_get :: "pyval \<Rightarrow> string \<Rightarrow> pyval \<Rightarrow> pyval option" where
  "py_get (PDict kvs) key dflt =
     Some (case map_of kvs key of None \<Rightarrow> dflt | Some v \<Rightarrow> v)"
| "py_get _ key dflt = None"

text \<open>
  The items a \<open>for\<close> loop or \<open>zip\<close> draws from a value: the elements of a list, the
  keys of a dict, the characters of a string; any other value is not iterable
  (TypeError, \<open>None\<close> here).
\<close>

fun py_iter :: "pyval \<Rightarrow> pyval list option" where
  "py_iter (PList xs) = Some xs"
| "py_iter (PDict kvs) = Some (map (\<lambda>kv. PStr (fst kv)) kvs)"
| "py_iter (PStr t) = Some (map (\<lambda>c. PStr [c]) t)"
| "py_iter _ = None"

text \<open>
  \<open>(v or "").strip()\<close>: a falsy \<open>v\<close> gives the empty string, a non-empty string is
  trimmed, and any other truthy value has no \<open>strip\<close> (AttributeError, \<open>None\<close> here).
\<close>

fun or_empty_strip :: "pyval \<Rightarrow> string option" where
  "or_empty_strip (PStr t) = Some (strip t)"
| "or_empty_strip v = (if truthy v then None else Some [])"

text \<open>\<open>str(n)\<close> of an integer, as an f-string formats it.\<close>

definition digit_char :: "nat \<Rightarrow> char" where
  "digit_char d = ''0123456789'' ! (d mod 10)"

fun str_nat :: "nat \<Rightarrow> string" where
  "str_nat n = (if n < 10 then [digit_char n] else str_nat (n div 10) @ [digit_char (n mod 10)])"

declare str_nat.simps [simp del]

definition str_int :: "int \<Rightarrow> string" where
  "str_int i = (if i < 0 then CHR ''-'' # str_nat (nat (- i)) else str_nat (nat i))"

text \<open>\<open>os.path.join(a, b)\<close> of two components on a POSIX system.\<close>

definition os_path_join :: "string \<Rightarrow> string \<Rightarrow> string" where
  "os_path_join a b =
     (if b \<noteq> [] \<and> hd b = CHR ''/'' then b
      else if a = [] \<or> last a = CHR ''/'' then a @ b
      else a @ ''/'' @ b)"

section \<open>Documents\<close>

text \<open>
  A langchain \<open>Document\<close>: its text and its metadata dict, kept in insertion order.
\<close>

datatype meta_value = MInt int | MStr string

datatype document =
  Document (page_content: string) (metadata: "(string \<times> meta_value) list")

section \<open>The program state and its environment\<close>

text \<open>
  The handles \<open>init_llm\<close> creates, the vector store and the retrieval chain. A store
  is either opened on an existing persist directory or built from chunks.
\<close>

datatype llm = ChatOpenAI (model: string) (temperature: rat) (max_tokens: nat)

datatype embedder = OpenAIEmbeddings

datatype chroma =
    Chroma_open string embedder
  | Chroma_built "document list" embedder "string option"

datatype chain = RetrievalQA llm chroma

text \<open>One part of the message sent to the model: the instruction or a page image.\<close>

datatype part = Text_part string | Image_url string

text \<open>
  The calls the program makes, in order. The list is a record of what ran; the program
  never reads it.
\<close>

datatype event =
    Extract_selectable string
  | Vision_ocr string int int int
  | Llm_invoke "part list"
  | Split_documents "document list"
  | Chroma_from_documents "document list" "string option"
  | Chroma_persist
  | Chroma_load string
  | RetrievalQA_from_chain_type
  | Chain_invoke string

text \<open>
  The module globals of \<open>worker.py\<close> (\<open>VECTOR_DB_DIR\<close> is
  \<open>os.path.join(BASE_DIR, "vector_db")\<close>, fixed when the module is loaded), the
  directories on disk below \<open>VECTOR_DB_DIR\<close> (\<open>dirs\<close> lists each directory with its
  entries; a path is a directory when it is a key) and the calls made so far.
\<close>

record state =
  VECTOR_DB_DIR :: string
  llm_hub :: "llm option"
  embeddings :: "embedder option"
  conversation_retrieval_chain :: "chain option"
  chat_history :: "(string \<times> string) list"
  dirs :: "(string \<times> string list) list"
  calls :: "event list"

text \<open>
  What the libraries and services answer. Each field stands for one library call of the
  source; \<open>Inl\<close> (or \<open>None\<close> for \<open>json_loads\<close>) is an exception raised by it.
  \<^item> \<open>api_key\<close>: the credential \<open>load_dotenv\<close> finds, without which the clients
    cannot be created;
  \<^item> \<open>fitz_pages\<close>: \<open>fitz.open\<close> and \<open>page.get_text("text")\<close> for every page;
  \<^item> \<open>render_jpeg\<close>: \<open>page_to_jpeg_data_url\<close> at a resolution for a page index;
  \<^item> \<open>llm_reply\<close>: the \<open>content\<close> of \<open>llm_hub.invoke\<close>, which may depend on the
    calls made before;
  \<^item> \<open>json_loads\<close>: \<open>json.loads\<close>;
  \<^item> \<open>split_text\<close>: \<open>RecursiveCharacterTextSplitter(chunk_size=900,
    chunk_overlap=120).split_text\<close>;
  \<^item> \<open>os_makedirs\<close>: the exception of \<open>os.makedirs\<close> on a path, if any;
  \<^item> \<open>chroma_build\<close>: the entries \<open>Chroma.from_documents\<close> writes into the persist
    directory and the exception it ends with, if any; \<open>chroma_flush\<close> the same for
    \<open>db.persist()\<close>, and \<open>chroma_load\<close> the same for \<open>Chroma(persist_directory=...)\<close>
    on an existing directory;
  \<^item> \<open>chain_build\<close>: the exception of \<open>RetrievalQA.from_chain_type\<close> (with
    \<open>db.as_retriever\<close>) on a store, if any;
  \<^item> \<open>chain_reply\<close>: the value of \<open>out.get("result")\<close> for
    \<open>conversation_retrieval_chain.invoke\<close>;
  \<^item> \<open>file_bytes\<close>: the content of a file; \<open>sha256\<close>: the SHA-256 digest.
\<close>

record env =
  api_key :: "string option"
  fitz_pages :: "string \<Rightarrow> error + string option list"
  render_jpeg :: "string \<Rightarrow> int \<Rightarrow> int \<Rightarrow> error + string"
  llm_reply :: "event list \<Rightarrow> part list \<Rightarrow> error + string option"
  json_loads :: "string \<Rightarrow> pyval option"
  split_text :: "string \<Rightarrow> string list"
  chroma_build :: "document list \<Rightarrow> string list \<times> error option"
  chroma_flush :: "document list \<Rightarrow> string list \<times> error option"
  chroma_load :: "string \<Rightarrow> string list \<times> error option"
  chain_build :: "chroma \<Rightarrow> error option"
  os_makedirs :: "string \<Rightarrow> error option"
  chain_reply :: "event list \<Rightarrow> chain \<Rightarrow> string \<Rightarrow> error + string option"
  file_bytes :: "string \<rightharpoonup> 8 word list"
  sha256 :: "8 word list \<Rightarrow> 256 word"

definition record_call :: "event \<Rightarrow> state \<Rightarrow> state" where
  "record_call e s = s\<lparr>calls := calls s @ [e]\<rparr>"

definition init_llm :: "env \<Rightarrow> state \<Rightarrow> (error + unit) \<times> state" where
  "init_llm env s =
     (case api_key env of
        None \<Rightarrow> (Inl (External ''api_key''), s)
      | Some k \<Rightarrow>
          (Inr (), s\<lparr>llm_hub := Some (ChatOpenAI ''gpt-4o-mini'' (1 / 10) 512),
                     embeddings := Some OpenAIEmbeddings\<rparr>))"

section \<open>Selectable-text extraction\<close>

text \<open>
  The body of the \<open>for i, page in enumerate(pdf)\<close> loop of
  \<open>_extract_selectable_text_documents\<close>. A page is the value of
  \<open>page.get_text("text")\<close>; \<open>i\<close> is the loop index and \<open>docs\<close> the list built so far.
\<close>

fun extract_pages :: "string \<Rightarrow> nat \<Rightarrow> string option list \<Rightarrow> document list \<Rightarrow> document list" where
  "extract_pages pdf_path i [] docs = docs"
| "extract_pages pdf_path i (page # pages) docs =
     (let text = strip (or_empty page)
      in extract_pages pdf_path (i + 1) pages
           (if text \<noteq> []
            then docs @ [Document text [(''page'', MInt (int i + 1)), (''source'', MStr pdf_path)]]
            else docs))"

definition extract_selectable_text_documents ::
  "env \<Rightarrow> string \<Rightarrow> state \<Rightarrow> (error + document list) \<times> state" where
  "extract_selectable_text_documents env pdf_path s =
     (let s1 = record_call (Extract_selectable pdf_path) s
      in case fitz_pages env pdf_path of
           Inl e \<Rightarrow> (Inl e, s1)
         | Inr pages \<Rightarrow> (Inr (extract_pages pdf_path 0 pages []), s1))"

section \<open>Vision fallback\<close>

text \<open>The instruction sent with every batch of page images.\<close>

definition ocr_prompt :: string where
  \<open>ocr_prompt =
     ''You will receive multiple page images from a PDF. '' @
     ''Extract all readable text from EACH page faithfully, keeping the original language (Arabic/English). '' @
     ''Return STRICT JSON ONLY in this format:'' @ [CHR 0x0A] @
     ''{'' @ [CHR 0x0A] @
     ''  "pages": ['' @ [CHR 0x0A] @
     ''    {"page": 1, "text": "..."},'' @ [CHR 0x0A] @
     ''    {"page": 2, "text": "..."}'' @ [CHR 0x0A] @
     ''  ]'' @ [CHR 0x0A] @
     ''}'' @ [CHR 0x0A] @
     ''If a page has no text, use empty string.''\<close>

text \<open>
  \<open>for idx in batch_indices: content.append(...)\<close>: one rendered image per page of the
  batch; a rendering that raises ends the loop with its exception.
\<close>

fun render_pages :: "env \<Rightarrow> string \<Rightarrow> int \<Rightarrow> int list \<Rightarrow> part list \<Rightarrow> error + part list" where
  "render_pages env pdf_path dpi [] content = Inr content"
| "render_pages env pdf_path dpi (idx # rest) content =
     (case render_jpeg env pdf_path dpi idx of
        Inl e \<Rightarrow> Inl e
      | Inr url \<Rightarrow> render_pages env pdf_path dpi rest (content @ [Image_url url]))"

text \<open>
  The \<open>for item, idx in zip(...)\<close> loop inside the \<open>try\<close>. The result is the list of
  documents as the loop leaves it and whether an exception left the loop; documents
  appended before the exception stay in the list.
\<close>

fun items_loop :: "string \<Rightarrow> (pyval \<times> int) list \<Rightarrow> document list \<Rightarrow> document list \<times> bool" where
  "items_loop pdf_path [] docs = (docs, False)"
| "items_loop pdf_path ((item, idx) # rest) docs =
     (case py_get item ''text'' PNone of
        None \<Rightarrow> (docs, True)
      | Some v \<Rightarrow>
          (case or_empty_strip v of
             None \<Rightarrow> (docs, True)
           | Some text \<Rightarrow>
               items_loop pdf_path rest
                 (if text \<noteq> []
                  then docs @ [Document text [(''page'', MInt (idx + 1)), (''source'', MStr pdf_path),
                                              (''ocr'', MStr ''vision'')]]
                  else docs)))"

text \<open>The body of the \<open>try\<close>: \<open>json.loads\<close>, \<open>data.get("pages", [])\<close>, \<open>zip\<close>, the loop.\<close>

definition try_parse :: "env \<Rightarrow> string \<Rightarrow> int list \<Rightarrow> string \<Rightarrow> document list \<Rightarrow> document list \<times> bool" where
  "try_parse env pdf_path batch_indices raw docs =
     (case json_loads env raw of
        None \<Rightarrow> (docs, True)
      | Some data \<Rightarrow>
          (case py_get data ''pages'' (PList []) of
             None \<Rightarrow> (docs, True)
           | Some pages \<Rightarrow>
               (case py_iter pages of
                  None \<Rightarrow> (docs, True)
                | Some items \<Rightarrow> items_loop pdf_path (zip items batch_indices) docs)))"

text \<open>The \<open>try\<close> with its \<open>except Exception\<close> handler, for one batch.\<close>

definition parse_batch :: "env \<Rightarrow> string \<Rightarrow> int \<Rightarrow> int \<Rightarrow> int list \<Rightarrow> string \<Rightarrow> document list \<Rightarrow> document list" where
  "parse_batch env pdf_path batch_start batch_end batch_indices raw docs =
     (case try_parse env pdf_path batch_indices raw docs of
        (docs1, False) \<Rightarrow> docs1
      | (docs1, True) \<Rightarrow>
          (if raw \<noteq> []
           then docs1 @ [Document raw
                  [(''page_range'', MStr (str_int (batch_start + 1) @ ''-'' @ str_int batch_end)),
                   (''source'', MStr pdf_path), (''ocr'', MStr ''vision_raw'')]]
           else docs1))"

text \<open>
  The \<open>while batch_start < pages_to_process\<close> loop. It need not end (a \<open>batch_size\<close>
  below 1 never advances), so the result is an option: \<open>None\<close> is a loop that runs
  forever.
\<close>

partial_function (option) vision_loop ::
  "env \<Rightarrow> string \<Rightarrow> int \<Rightarrow> int \<Rightarrow> int \<Rightarrow> int \<Rightarrow> document list \<Rightarrow> state \<Rightarrow>
     ((error + document list) \<times> state) option" where
  [code]: "vision_loop env pdf_path dpi batch_size pages_to_process batch_start docs s =
     (if batch_start < pages_to_process then
        (let batch_end = min (batch_start + batch_size) pages_to_process;
             batch_indices = [batch_start..batch_end - 1]
         in case render_pages env pdf_path dpi batch_indices [Text_part ocr_prompt] of
              Inl e \<Rightarrow> Some (Inl e, s)
            | Inr content \<Rightarrow>
                (let s1 = record_call (Llm_invoke content) s
                 in case llm_reply env (calls s) content of
                      Inl e \<Rightarrow> Some (Inl e, s1)
                    | Inr resp_content \<Rightarrow>
                        vision_loop env pdf_path dpi batch_size pages_to_process batch_end
                          (parse_batch env pdf_path batch_start batch_end batch_indices
                             (strip (or_empty resp_content)) docs)
                          s1))
      else Some (Inr docs, s))"

definition vision_ocr_pdf ::
  "env \<Rightarrow> string \<Rightarrow> int \<Rightarrow> int \<Rightarrow> int \<Rightarrow> state \<Rightarrow> ((error + document list) \<times> state) option" where
  "vision_ocr_pdf env pdf_path max_pages dpi batch_size s =
     (let s1 = record_call (Vision_ocr pdf_path max_pages dpi batch_size) s
      in case llm_hub s of
           None \<Rightarrow> Some (Inl (RuntimeError ''LLM not initialized. Call init_llm() first.''), s1)
         | Some l \<Rightarrow>
             (case fitz_pages env pdf_path of
                Inl e \<Rightarrow> Some (Inl e, s1)
              | Inr pages \<Rightarrow>
                  (let total_pages = int (length pages);
                       pages_to_process = min total_pages max_pages
                   in vision_loop env pdf_path dpi batch_size pages_to_process 0 [] s1)))"

text \<open>
  A call of \<open>_vision_ocr_pdf\<close> with \<open>pdf_path\<close> by position and the rest by keyword.
  Python binds the keywords to the parameters before the body runs: a keyword that
  names no parameter raises TypeError and the body does not start. A parameter without
  a keyword takes its default. (The repository passes integer literals for the integer
  parameters; a keyword value of another type is read as the default.)
\<close>

definition vision_ocr_pdf_params :: "string list" where
  "vision_ocr_pdf_params = [''pdf_path'', ''max_pages'', ''dpi'', ''batch_size'']"

definition int_param :: "(string \<times> pyval) list \<Rightarrow> string \<Rightarrow> int \<Rightarrow> int" where
  "int_param kwargs name dflt = (case map_of kwargs name of Some (PInt n) \<Rightarrow> n | _ \<Rightarrow> dflt)"

definition call_vision_ocr_pdf ::
  "env \<Rightarrow> string \<Rightarrow> (string \<times> pyval) list \<Rightarrow> state \<Rightarrow> ((error + document list) \<times> state) option" where
  "call_vision_ocr_pdf env pdf_path kwargs s =
     (case filter (\<lambda>k. k \<notin> set vision_ocr_pdf_params) (map fst kwargs) of
        k # ks \<Rightarrow>
          Some (Inl (TypeError (''_vision_ocr_pdf() got an unexpected keyword argument ''
                             @ [CHR 0x27] @ k @ [CHR 0x27])), s)
      | [] \<Rightarrow>
          vision_ocr_pdf env pdf_path (int_param kwargs ''max_pages'' 20)
            (int_param kwargs ''dpi'' 140) (int_param kwargs ''batch_size'' 3) s)"

section \<open>Building or loading the index\<close>

text \<open>The truth value of a \<open>str\<close> or \<open>None\<close>, as \<open>if doc_id:\<close> tests it.\<close>

fun str_truthy :: "string option \<Rightarrow> bool" where
  "str_truthy None = False"
| "str_truthy (Some t) = (t \<noteq> [])"

text \<open>\<open>os.path.isdir(persist_dir) and os.listdir(persist_dir)\<close>.\<close>

definition cached_index :: "state \<Rightarrow> string \<Rightarrow> bool" where
  "cached_index s persist_dir =
     (case map_of (dirs s) persist_dir of None \<Rightarrow> False | Some entries \<Rightarrow> entries \<noteq> [])"

text \<open>\<open>os.makedirs(persist_dir, exist_ok=True)\<close>, and a library writing entries into a directory.\<close>

definition makedirs :: "string \<Rightarrow> (string \<times> string list) list \<Rightarrow> (string \<times> string list) list" where
  "makedirs p d = (case map_of d p of None \<Rightarrow> AList.update p [] d | Some entries \<Rightarrow> d)"

definition write_entries ::
  "string \<Rightarrow> string list \<Rightarrow> (string \<times> string list) list \<Rightarrow> (string \<times> string list) list" where
  "write_entries p new d =
     AList.update p (case map_of d p of None \<Rightarrow> new | Some entries \<Rightarrow> entries @ new) d"

text \<open>
  \<open>splitter.split_documents(docs)\<close>: langchain splits the text of each document in
  turn and gives every piece the metadata of its document.
\<close>

definition split_documents :: "env \<Rightarrow> document list \<Rightarrow> document list" where
  "split_documents env docs =
     concat (map (\<lambda>d. map (\<lambda>t. Document t (metadata d)) (split_text env (page_content d))) docs)"

text \<open>
  The end of both branches of \<open>process_document\<close>: \<open>RetrievalQA.from_chain_type(...)\<close>,
  the assignment of its result to the global and the \<open>return\<close> of the status. When
  the construction raises, the global keeps its value.
\<close>

definition set_chain :: "env \<Rightarrow> llm \<Rightarrow> chroma \<Rightarrow> string \<Rightarrow> state \<Rightarrow> (error + string) \<times> state" where
  "set_chain env l db status s =
     (let s1 = record_call RetrievalQA_from_chain_type s
      in case chain_build env db of
           Some e \<Rightarrow> (Inl e, s1)
         | None \<Rightarrow> (Inr status, s1\<lparr>conversation_retrieval_chain := Some (RetrievalQA l db)\<rparr>))"

text \<open>
  Lines 199 to 225 of \<open>process_document\<close>: split, filter, build the store, build the
  chain. Every library call that works on the disk or reaches a service can raise:
  \<open>os.makedirs\<close>, \<open>Chroma.from_documents\<close>, \<open>db.persist()\<close> and the construction of the
  chain. The splitter works on strings only and is taken to return.
\<close>

definition build_index ::
  "env \<Rightarrow> string option \<Rightarrow> llm \<Rightarrow> embedder \<Rightarrow> document list \<Rightarrow> state \<Rightarrow> (error + string) \<times> state" where
  "build_index env persist_dir l emb docs s =
     (let s1 = record_call (Split_documents docs) s;
          chunks = filter (\<lambda>c. strip (page_content c) \<noteq> []) (split_documents env docs)
      in if str_truthy persist_dir then
           (let pd = or_empty persist_dir
            in case os_makedirs env pd of
                 Some e \<Rightarrow> (Inl e, s1)
               | None \<Rightarrow>
                   (let s2 = s1\<lparr>dirs := makedirs pd (dirs s1)\<rparr>;
                        s3 = record_call (Chroma_from_documents chunks persist_dir) s2;
                        s4 = s3\<lparr>dirs := write_entries pd (fst (chroma_build env chunks)) (dirs s3)\<rparr>
                    in case snd (chroma_build env chunks) of
                         Some e \<Rightarrow> (Inl e, s4)
                       | None \<Rightarrow>
                           (let s5 = record_call Chroma_persist s4;
                                s6 = s5\<lparr>dirs := write_entries pd (fst (chroma_flush env chunks)) (dirs s5)\<rparr>
                            in case snd (chroma_flush env chunks) of
                                 Some e \<Rightarrow> (Inl e, s6)
                               | None \<Rightarrow>
                                   set_chain env l (Chroma_built chunks emb persist_dir) ''indexed'' s6)))
         else
           (let s3 = record_call (Chroma_from_documents chunks None) s1
            in case snd (chroma_build env chunks) of
                 Some e \<Rightarrow> (Inl e, s3)
               | None \<Rightarrow> set_chain env l (Chroma_built chunks emb None) ''indexed'' s3))"

text \<open>
  Lines 189 to 225: extraction, the vision fallback when it found nothing, the check
  that something was found, and the index. The fallback is called as the source calls
  it, with the keywords \<open>max_pages=12, zoom=1.4\<close>.
\<close>

definition index_document ::
  "env \<Rightarrow> string \<Rightarrow> string option \<Rightarrow> llm \<Rightarrow> embedder \<Rightarrow> state \<Rightarrow> ((error + string) \<times> state) option" where
  "index_document env document_path persist_dir l emb s =
     (case extract_selectable_text_documents env document_path s of
        (Inl e, s1) \<Rightarrow> Some (Inl e, s1)
      | (Inr docs, s1) \<Rightarrow>
          (case (if length docs = 0
                 then call_vision_ocr_pdf env document_path
                        [(''max_pages'', PInt 12), (''zoom'', PFloat (14 / 10))] s1
                 else Some (Inr docs, s1)) of
             None \<Rightarrow> None
           | Some (Inl e, s2) \<Rightarrow> Some (Inl e, s2)
           | Some (Inr docs2, s2) \<Rightarrow>
               (if length docs2 = 0
                then Some (Inl (ValueError ''No extractable text found (even after Vision OCR).''), s2)
                else Some (build_index env persist_dir l emb docs2 s2))))"

text \<open>
  Lines 174 to 187: the store is opened on the existing directory and the chain is
  built on it. Opening the store can raise (the directory need not hold a store) and
  can write into the directory.
\<close>

definition load_cached ::
  "env \<Rightarrow> string \<Rightarrow> llm \<Rightarrow> embedder \<Rightarrow> state \<Rightarrow> (error + string) \<times> state" where
  "load_cached env persist_dir l emb s =
     (let s1 = record_call (Chroma_load persist_dir) s;
          s2 = s1\<lparr>dirs := write_entries persist_dir (fst (chroma_load env persist_dir)) (dirs s1)\<rparr>
      in case snd (chroma_load env persist_dir) of
           Some e \<Rightarrow> (Inl e, s2)
         | None \<Rightarrow> set_chain env l (Chroma_open persist_dir emb) ''cached'' s2)"

definition process_document ::
  "env \<Rightarrow> string \<Rightarrow> string option \<Rightarrow> state \<Rightarrow> ((error + string) \<times> state) option" where
  "process_document env document_path doc_id s =
     (case (embeddings s, llm_hub s) of
        (Some emb, Some l) \<Rightarrow>
          (let s1 = s\<lparr>chat_history := []\<rparr>
           in if str_truthy doc_id then
                (let persist_dir = os_path_join (VECTOR_DB_DIR s1) (or_empty doc_id)
                 in if cached_index s1 persist_dir
                    then Some (load_cached env persist_dir l emb s1)
                    else index_document env document_path (Some persist_dir) l emb s1)
              else index_document env document_path None l emb s1)
      | _ \<Rightarrow> Some (Inl (RuntimeError ''LLM/Embeddings not initialized. Call init_llm() first.''), s))"

section \<open>Answering a prompt\<close>

definition process_prompt :: "env \<Rightarrow> string \<Rightarrow> state \<Rightarrow> (error + string) \<times> state" where
  "process_prompt env prompt s =
     (case conversation_retrieval_chain s of
        None \<Rightarrow> (Inr ''Please upload a PDF first so I can answer based on it.'', s)
      | Some c \<Rightarrow>
          (let prompt1 = strip prompt
           in if prompt1 = [] then (Inr ''Please type a question.'', s)
              else
                (let s1 = record_call (Chain_invoke prompt1) s
                 in case chain_reply env (calls s) c prompt1 of
                      Inl e \<Rightarrow> (Inl e, s1)
                    | Inr result \<Rightarrow>
                        (let answer = strip (or_empty result);
                             s2 = s1\<lparr>chat_history := chat_history s1 @ [(prompt1, answer)]\<rparr>
                         in (Inr (if answer \<noteq> [] then answer else ''No response.''), s2)))))"

section \<open>The server: fingerprint and chat endpoint\<close>

text \<open>
  \<open>hashlib.sha256()\<close> is the message fed so far; \<open>update\<close> appends a block and
  \<open>hexdigest\<close> writes the digest of the message as 64 hexadecimal digits. The loop of
  \<open>sha256_file\<close> reads blocks of \<open>1024 * 1024\<close> bytes until a read returns no byte.
\<close>

definition hex_char :: "nat \<Rightarrow> char" where
  "hex_char d = ''0123456789abcdef'' ! (d mod 16)"

definition hexdigest :: "env \<Rightarrow> 8 word list \<Rightarrow> string" where
  "hexdigest env h =
     map (\<lambda>i. hex_char (unat (and (drop_bit (4 * i) (sha256 env h)) 15))) (rev [0..<64])"

function read_blocks :: "8 word list \<Rightarrow> 8 word list \<Rightarrow> 8 word list" where
  "read_blocks h rest =
     (if take (1024 * 1024) rest = [] then h
      else read_blocks (h @ take (1024 * 1024) rest) (drop (1024 * 1024) rest))"
  by pat_completeness auto
termination
  by (relation "measure (\<lambda>(h, rest). length rest)") auto

declare read_blocks.simps [simp del]

definition sha256_file :: "env \<Rightarrow> string \<Rightarrow> error + string" where
  "sha256_file env path =
     (case file_bytes env path of
        None \<Rightarrow> Inl (External ''open'')
      | Some bytes \<Rightarrow> Inr (hexdigest env (read_blocks [] bytes)))"

text \<open>The reply of an endpoint: the HTTP status and the JSON object.\<close>

record response =
  status :: nat
  payload :: "(string \<times> string) list"

definition answer_json :: "string \<Rightarrow> (string \<times> string) list" where
  "answer_json msg = [(''answer'', msg), (''response'', msg), (''message'', msg), (''bot_response'', msg)]"

text \<open>
  The \<open>/chat\<close> handler. \<open>body\<close> is the value of
  \<open>request.get_json(force=True, silent=True)\<close>, \<open>None\<close> when the body is not JSON.
  Every exception inside the \<open>try\<close> gives the 500 reply.
\<close>

definition chat :: "env \<Rightarrow> pyval option \<Rightarrow> state \<Rightarrow> response \<times> state" where
  "chat env body s =
     (let failed = \<lparr>status = 500, payload = answer_json ''Sorry, something went wrong. Please try again.''\<rparr>;
          data = (case body of None \<Rightarrow> PDict [] | Some v \<Rightarrow> if truthy v then v else PDict [])
      in case py_get data ''message'' PNone of
           None \<Rightarrow> (failed, s)
         | Some m \<Rightarrow>
             (case or_empty_strip m of
                None \<Rightarrow> (failed, s)
              | Some prompt \<Rightarrow>
                  (if prompt = []
                   then (\<lparr>status = 200, payload = answer_json ''Please type a question.''\<rparr>, s)
                   else
                     (case process_prompt env prompt s of
                        (Inl e, s1) \<Rightarrow> (failed, s1)
                      | (Inr answer, s1) \<Rightarrow> (\<lparr>status = 200, payload = answer_json answer\<rparr>, s1)))))"

section \<open>States reached by running the program\<close>


section \<open>A sample environment and sample states\<close>

text \<open>
  An environment for running the definitions on concrete inputs: \<open>text.pdf\<close> has three
  pages, the second one blank; \<open>scan.pdf\<close> has two pages without selectable text; any
  other path does not open. \<open>json_loads\<close> gives the values of \<open>json.loads\<close> on the
  strings used below: the empty string and \<open>not json\<close> are not JSON, \<open>{}\<close> is the
  empty object.
\<close>

definition sample_env :: env where
  "sample_env =
     \<lparr>api_key = Some ''key'',
      fitz_pages = (\<lambda>p. if p = ''text.pdf'' then Inr [Some ''Hello '', Some ''  '', Some ''World'']
                        else if p = ''scan.pdf'' then Inr [Some [], None]
                        else Inl (External ''cannot open'')),
      render_jpeg = (\<lambda>p dpi idx. Inr ''data:image/jpeg;base64,''),
      llm_reply = (\<lambda>h content. Inr (Some ''not json'')),
      json_loads = (\<lambda>t. if t = ''{}'' then Some (PDict []) else None),
      split_text = (\<lambda>t. [t]),
      chroma_build = (\<lambda>chunks. ([''chroma.sqlite3''], None)),
      chroma_flush = (\<lambda>chunks. ([], None)),
      chroma_load = (\<lambda>dir. ([], None)),
      chain_build = (\<lambda>db. None),
      os_makedirs = (\<lambda>dir. None),
      chain_reply = (\<lambda>h c q. Inr (Some '' 42 '')),
      file_bytes = [''a.pdf'' \<mapsto> [1, 2, 3], ''b.pdf'' \<mapsto> [1, 2, 3]],
      sha256 = (\<lambda>bytes. of_nat (length bytes))\<rparr>"

text \<open>The state of a fresh process, and the state after \<open>init_llm\<close>.\<close>

definition fresh_state :: state where
  "fresh_state =
     \<lparr>VECTOR_DB_DIR = ''/app/vector_db'', llm_hub = None, embeddings = None,
      conversation_retrieval_chain = None,
      chat_history = [], dirs = [], calls = []\<rparr>"

definition ready_state :: state where
  "ready_state =
     fresh_state\<lparr>llm_hub := Some (ChatOpenAI ''gpt-4o-mini'' (1 / 10) 512),
                 embeddings := Some OpenAIEmbeddings\<rparr>"

text \<open>A state in which a document is loaded and one question has been answered.\<close>

definition answering_state :: state where
  "answering_state =
     ready_state\<lparr>conversation_retrieval_chain :=
                   Some (RetrievalQA (ChatOpenAI ''gpt-4o-mini'' (1 / 10) 512)
                           (Chroma_open ''/app/vector_db/old'' OpenAIEmbeddings)),
                 chat_history := [(''question'', ''answer'')]\<rparr>"


text \<open>
  The two documents extracted from \<open>text.pdf\<close>, and a splitter that cuts a text after
  three characters and leaves a blank piece between the two parts.
\<close>

definition text_pdf_docs :: "document list" where
  "text_pdf_docs =
     [Document ''Hello'' [(''page'', MInt 1), (''source'', MStr ''text.pdf'')],
      Document ''World'' [(''page'', MInt 3), (''source'', MStr ''text.pdf'')]]"

definition text_pdf_pieces :: "document list" where
  "text_pdf_pieces =
     [Document ''Hel'' [(''page'', MInt 1), (''source'', MStr ''text.pdf'')],
      Document ''lo'' [(''page'', MInt 1), (''source'', MStr ''text.pdf'')],
      Document ''Wor'' [(''page'', MInt 3), (''source'', MStr ''text.pdf'')],
      Document ''ld'' [(''page'', MInt 3), (''source'', MStr ''text.pdf'')]]"

definition cutting_env :: env where
  "cutting_env = sample_env\<lparr>split_text := (\<lambda>t. [take 3 t, '' '', drop 3 t])\<rparr>"




text \<open>
  Environments in which the model answers with blanks only, in which it answers with
  the empty JSON object, and in which no store opens.
\<close>

definition empty_object_env :: env where
  "empty_object_env = sample_env\<lparr>llm_reply := (\<lambda>h content. Inr (Some ''{}''))\<rparr>"



definition blank_reply_env :: env where
  "blank_reply_env = sample_env\<lparr>llm_reply := (\<lambda>h content. Inr (Some ''  ''))\<rparr>"

definition blank_answer_env :: env where
  "blank_answer_env = sample_env\<lparr>chain_reply := (\<lambda>h c q. Inr (Some ''  ''))\<rparr>"

text \<open>
  The message sent for the two pages of \<open>scan.pdf\<close>, and the document that keeps the
  raw reply \<open>not json\<close> for them.
\<close>

definition scan_pdf_content :: "part list" where
  "scan_pdf_content =
     [Text_part ocr_prompt, Image_url ''data:image/jpeg;base64,'', Image_url ''data:image/jpeg;base64,'']"

definition not_json_doc :: document where
  "not_json_doc =
     Document ''not json''
       [(''page_range'', MStr ''1-2''), (''source'', MStr ''scan.pdf''), (''ocr'', MStr ''vision_raw'')]"


section \<open>Selectable-text extraction: one document per page with text\<close>

lemma extract_pages_eq:
  "extract_pages p i pages docs =
     docs @ map (\<lambda>kp. Document (strip (or_empty (snd kp)))
                      [(''page'', MInt (int (fst kp) + 1)), (''source'', MStr p)])
              (filter (\<lambda>kp. strip (or_empty (snd kp)) \<noteq> []) (enumerate i pages))"
  by (induction pages arbitrary: i docs) (simp_all add: Let_def)

text \<open>
  C6. When the PDF opens, \<open>_extract_selectable_text_documents\<close> returns (it does not
  raise) the pages whose trimmed text is non-empty, in page order, one document each,
  holding the trimmed text and the page's 1-based number; when no page has text the
  result is the empty list.
\<close>

theorem extract_selectable_one_per_text_page:
  assumes "fitz_pages env p = Inr pages"
  shows "fst (extract_selectable_text_documents env p s) =
           Inr (map (\<lambda>kp. Document (strip (or_empty (snd kp)))
                          [(''page'', MInt (int (fst kp) + 1)), (''source'', MStr p)])
                  (filter (\<lambda>kp. strip (or_empty (snd kp)) \<noteq> []) (enumerate 0 pages)))
         \<and> (filter (\<lambda>t. strip (or_empty t) \<noteq> []) pages = [] \<longrightarrow>
              fst (extract_selectable_text_documents env p s) = Inr [])"
  using assms
  by (auto simp add: extract_selectable_text_documents_def Let_def extract_pages_eq
        filter_empty_conv in_set_enumerate_eq)

theorem extract_selectable_one_per_text_page_witness:
  "fitz_pages sample_env ''text.pdf'' = Inr [Some ''Hello '', Some ''  '', Some ''World'']
   \<and> fst (extract_selectable_text_documents sample_env ''text.pdf'' fresh_state) =
       Inr [Document ''Hello'' [(''page'', MInt 1), (''source'', MStr ''text.pdf'')],
            Document ''World'' [(''page'', MInt 3), (''source'', MStr ''text.pdf'')]]
   \<and> fitz_pages sample_env ''scan.pdf'' = Inr [Some [], None]
   \<and> fst (extract_selectable_text_documents sample_env ''scan.pdf'' fresh_state) = Inr []"
proof -
  have a: "fitz_pages sample_env ''text.pdf'' = Inr [Some ''Hello '', Some ''  '', Some ''World'']"
    by (simp add: sample_env_def)
  have b: "fitz_pages sample_env ''scan.pdf'' = Inr [Some [], None]"
    by (simp add: sample_env_def)
  show ?thesis
    using a b extract_selectable_one_per_text_page [OF a, of fresh_state]
      extract_selectable_one_per_text_page [OF b, of fresh_state]
    by (simp add: enumerate_eq_zip strip_def isspace_def upt_rec)
qed

section \<open>The keyword \<open>zoom\<close> and what a failed call leaves behind\<close>

lemma call_vision_zoom:
  "call_vision_ocr_pdf env p [(''max_pages'', PInt 12), (''zoom'', PFloat (14 / 10))] s =
     Some (Inl (TypeError (''_vision_ocr_pdf() got an unexpected keyword argument ''
                            @ [CHR 0x27] @ ''zoom'' @ [CHR 0x27])), s)"
  by (simp add: call_vision_ocr_pdf_def vision_ocr_pdf_params_def)

lemma build_index_raises:
  "build_index env pd l emb docs s = (Inl e, s') \<Longrightarrow>
     chat_history s' = chat_history s \<and> conversation_retrieval_chain s' = conversation_retrieval_chain s"
  by (auto simp add: build_index_def Let_def record_call_def set_chain_def
      split: if_splits option.splits)

lemma load_cached_raises:
  "load_cached env pd l emb s = (Inl e, s') \<Longrightarrow>
     chat_history s' = chat_history s \<and> conversation_retrieval_chain s' = conversation_retrieval_chain s"
  by (auto simp add: load_cached_def Let_def record_call_def set_chain_def split: option.splits)

lemma index_document_raises:
  "index_document env p pd l emb s = Some (Inl e, s') \<Longrightarrow>
     chat_history s' = chat_history s \<and> conversation_retrieval_chain s' = conversation_retrieval_chain s"
  unfolding index_document_def call_vision_zoom
  by (auto simp add: extract_selectable_text_documents_def Let_def record_call_def
      split: if_splits option.splits sum.splits prod.splits dest!: build_index_raises)

text \<open>
  C9. \<open>process_document\<close> is not atomic on error: once the initialisation check has
  passed, every call that raises leaves the conversation log empty and the retrieval
  chain as it was before the call.
\<close>

theorem process_document_raise_clears_history_keeps_chain:
  assumes "llm_hub s \<noteq> None" and "embeddings s \<noteq> None"
    and "process_document env p d s = Some (Inl e, s')"
  shows "chat_history s' = [] \<and> conversation_retrieval_chain s' = conversation_retrieval_chain s"
  using assms
  by (auto simp add: process_document_def Let_def split: if_splits option.splits
      dest!: index_document_raises load_cached_raises)

theorem process_document_raise_clears_history_keeps_chain_witness:
  "llm_hub answering_state \<noteq> None \<and> embeddings answering_state \<noteq> None
   \<and> process_document sample_env ''scan.pdf'' (Some ''d1'') answering_state =
       Some (Inl (TypeError (''_vision_ocr_pdf() got an unexpected keyword argument ''
                              @ [CHR 0x27] @ ''zoom'' @ [CHR 0x27])),
             answering_state\<lparr>chat_history := [], calls := [Extract_selectable ''scan.pdf'']\<rparr>)
   \<and> chat_history (answering_state\<lparr>chat_history := [], calls := [Extract_selectable ''scan.pdf'']\<rparr>) = []
   \<and> conversation_retrieval_chain
        (answering_state\<lparr>chat_history := [], calls := [Extract_selectable ''scan.pdf'']\<rparr>) =
       conversation_retrieval_chain answering_state
   \<and> chat_history answering_state = [(''question'', ''answer'')]"
proof -
  have h1: "llm_hub answering_state \<noteq> None" and h2: "embeddings answering_state \<noteq> None"
    by (simp_all add: answering_state_def ready_state_def fresh_state_def)
  have h3: "process_document sample_env ''scan.pdf'' (Some ''d1'') answering_state =
       Some (Inl (TypeError (''_vision_ocr_pdf() got an unexpected keyword argument ''
                              @ [CHR 0x27] @ ''zoom'' @ [CHR 0x27])),
             answering_state\<lparr>chat_history := [], calls := [Extract_selectable ''scan.pdf'']\<rparr>)"
    by code_simp
  show ?thesis
    using h1 h2 h3 process_document_raise_clears_history_keeps_chain [OF h1 h2 h3]
    by (simp add: answering_state_def)
qed

section \<open>Prompts\<close>

text \<open>
  C8. While no retrieval chain is set, \<open>process_prompt\<close> returns the fixed guidance
  string (and changes nothing), and the \<open>/chat\<close> endpoint answers a message that is a
  string with status 200; when the trimmed message is non-empty, the reply carries that
  guidance string.
\<close>

theorem upload_first_guidance:
  assumes "conversation_retrieval_chain s = None"
    and "map_of kvs ''message'' = Some (PStr m)"
  shows "process_prompt env m s = (Inr ''Please upload a PDF first so I can answer based on it.'', s)
       \<and> status (fst (chat env (Some (PDict kvs)) s)) = 200
       \<and> (strip m \<noteq> [] \<longrightarrow>
            fst (chat env (Some (PDict kvs)) s) =
              \<lparr>status = 200,
               payload = answer_json ''Please upload a PDF first so I can answer based on it.''\<rparr>)"
  using assms
  by (auto simp add: process_prompt_def chat_def Let_def)

theorem upload_first_guidance_witness:
  "conversation_retrieval_chain fresh_state = None
   \<and> map_of [(''message'', PStr ''What is the total?'')] ''message'' = Some (PStr ''What is the total?'')
   \<and> strip ''What is the total?'' \<noteq> []
   \<and> process_prompt sample_env ''What is the total?'' fresh_state =
       (Inr ''Please upload a PDF first so I can answer based on it.'', fresh_state)
   \<and> fst (chat sample_env (Some (PDict [(''message'', PStr ''What is the total?'')])) fresh_state) =
       \<lparr>status = 200,
        payload = answer_json ''Please upload a PDF first so I can answer based on it.''\<rparr>"
proof -
  have h1: "conversation_retrieval_chain fresh_state = None"
    by (simp add: fresh_state_def)
  have h2: "map_of [(''message'', PStr ''What is the total?'')] ''message'' = Some (PStr ''What is the total?'')"
    by simp
  have h3: "strip ''What is the total?'' \<noteq> []"
    by (simp add: strip_def isspace_def)
  show ?thesis
    using h1 h2 h3 upload_first_guidance [OF h1 h2, of sample_env]
    by simp
qed

text \<open>
  C10. With a chain set, a prompt whose trimmed text is non-empty and a chain that
  answers, \<open>process_prompt\<close> appends exactly one pair to the log, the trimmed prompt
  with the trimmed answer, and returns the trimmed answer, or \<open>No response.\<close> when the
  trimmed answer is empty: then the value returned differs from the one logged.
\<close>

theorem process_prompt_logs_trimmed_answer:
  assumes "conversation_retrieval_chain s = Some c"
    and "strip prompt \<noteq> []"
    and "chain_reply env (calls s) c (strip prompt) = Inr result"
  shows "fst (process_prompt env prompt s) =
           Inr (if strip (or_empty result) = [] then ''No response.'' else strip (or_empty result))
       \<and> chat_history (snd (process_prompt env prompt s)) =
           chat_history s @ [(strip prompt, strip (or_empty result))]"
  using assms
  by (simp add: process_prompt_def Let_def record_call_def)

theorem process_prompt_logs_trimmed_answer_witness:
  "conversation_retrieval_chain answering_state =
     Some (RetrievalQA (ChatOpenAI ''gpt-4o-mini'' (1 / 10) 512)
             (Chroma_open ''/app/vector_db/old'' OpenAIEmbeddings))
   \<and> strip '' Why? '' = ''Why?''
   \<and> fst (process_prompt blank_answer_env '' Why? '' answering_state) =
       Inr ''No response.''
   \<and> chat_history (snd (process_prompt blank_answer_env
                           '' Why? '' answering_state)) =
       [(''question'', ''answer''), (''Why?'', [])]"
proof -
  have h1: "conversation_retrieval_chain answering_state =
     Some (RetrievalQA (ChatOpenAI ''gpt-4o-mini'' (1 / 10) 512)
             (Chroma_open ''/app/vector_db/old'' OpenAIEmbeddings))"
    by (simp add: answering_state_def ready_state_def fresh_state_def)
  have h2: "strip '' Why? '' = ''Why?''"
    by (simp add: strip_def isspace_def)
  have h2': "strip '' Why? '' \<noteq> []"
    by (simp add: h2)
  have h3: "chain_reply blank_answer_env (calls answering_state)
              (RetrievalQA (ChatOpenAI ''gpt-4o-mini'' (1 / 10) 512)
                 (Chroma_open ''/app/vector_db/old'' OpenAIEmbeddings)) (strip '' Why? '') = Inr (Some ''  '')"
    by (simp add: blank_answer_env_def)
  have h4: "strip ''  '' = []"
    by (simp add: strip_def isspace_def)
  have h5: "chat_history answering_state = [(''question'', ''answer'')]"
    by (simp add: answering_state_def)
  show ?thesis
    using h1 h2 process_prompt_logs_trimmed_answer [OF h1 h2' h3]
    by (simp add: h4 h5)
qed

section \<open>The cached index\<close>

lemma process_document_hit:
  assumes "llm_hub s = Some l" and "embeddings s = Some emb" and "d \<noteq> []"
    and "cached_index s (os_path_join (VECTOR_DB_DIR s) d)"
  shows "process_document env p (Some d) s =
           Some (load_cached env (os_path_join (VECTOR_DB_DIR s) d) l emb (s\<lparr>chat_history := []\<rparr>))"
  using assms
  by (simp add: process_document_def Let_def cached_index_def)

lemma load_cached_returns:
  assumes "snd (chroma_load env dir) = None" and "chain_build env (Chroma_open dir emb) = None"
  shows "load_cached env dir l emb s =
           (Inr ''cached'',
            s\<lparr>conversation_retrieval_chain := Some (RetrievalQA l (Chroma_open dir emb)),
               dirs := write_entries dir (fst (chroma_load env dir)) (dirs s),
               calls := calls s @ [Chroma_load dir, RetrievalQA_from_chain_type]\<rparr>)"
  using assms
  by (simp add: load_cached_def Let_def set_chain_def record_call_def)

lemma load_cached_calls:
  "load_cached env dir l emb s = (r, s') \<Longrightarrow>
     calls s' = calls s @ [Chroma_load dir]
     \<or> calls s' = calls s @ [Chroma_load dir, RetrievalQA_from_chain_type]"
  by (auto simp add: load_cached_def Let_def record_call_def set_chain_def split: option.splits)





section \<open>The calls of \<open>process_document\<close>\<close>

lemma extract_result:
  "extract_selectable_text_documents env p s =
     (case fitz_pages env p of Inl e \<Rightarrow> Inl e | Inr pages \<Rightarrow> Inr (extract_pages p 0 pages []),
      record_call (Extract_selectable p) s)"
  by (simp add: extract_selectable_text_documents_def Let_def split: sum.splits)

lemma build_index_calls:
  "build_index env pd l emb docs s = (r, s') \<Longrightarrow>
     calls s' = calls s @ [Split_documents docs] \<or>
     (\<exists>rest pd'. calls s' = calls s @ Split_documents docs
                 # Chroma_from_documents (filter (\<lambda>c. strip (page_content c) \<noteq> []) (split_documents env docs)) pd'
                 # rest
            \<and> set rest \<subseteq> {Chroma_persist, RetrievalQA_from_chain_type})"
  by (cases pd) (auto simp add: build_index_def Let_def record_call_def set_chain_def
      split: if_splits option.splits)

lemma index_document_calls:
  "index_document env p pd l emb s = Some (r, s') \<Longrightarrow>
     calls s' = calls s @ [Extract_selectable p]
     \<or> (\<exists>pages. fitz_pages env p = Inr pages \<and>
           calls s' = calls s @ [Extract_selectable p, Split_documents (extract_pages p 0 pages [])])
     \<or> (\<exists>pages rest pd'. fitz_pages env p = Inr pages \<and> extract_pages p 0 pages [] \<noteq> [] \<and>
           calls s' = calls s @ Extract_selectable p # Split_documents (extract_pages p 0 pages [])
                 # Chroma_from_documents
                     (filter (\<lambda>c. strip (page_content c) \<noteq> [])
                        (split_documents env (extract_pages p 0 pages []))) pd'
                 # rest
            \<and> set rest \<subseteq> {Chroma_persist, RetrievalQA_from_chain_type})"
  unfolding index_document_def call_vision_zoom extract_result
  by (auto simp add: record_call_def split: sum.splits if_splits dest!: build_index_calls)

lemma process_document_calls:
  "process_document env p d s = Some (r, s') \<Longrightarrow>
     calls s' = calls s
     \<or> (\<exists>dir. calls s' = calls s @ [Chroma_load dir])
     \<or> (\<exists>dir. calls s' = calls s @ [Chroma_load dir, RetrievalQA_from_chain_type])
     \<or> calls s' = calls s @ [Extract_selectable p]
     \<or> (\<exists>pages. fitz_pages env p = Inr pages \<and>
           calls s' = calls s @ [Extract_selectable p, Split_documents (extract_pages p 0 pages [])])
     \<or> (\<exists>pages rest pd. fitz_pages env p = Inr pages \<and> extract_pages p 0 pages [] \<noteq> [] \<and>
           calls s' = calls s @ Extract_selectable p # Split_documents (extract_pages p 0 pages [])
                 # Chroma_from_documents
                     (filter (\<lambda>c. strip (page_content c) \<noteq> [])
                        (split_documents env (extract_pages p 0 pages []))) pd
                 # rest
            \<and> set rest \<subseteq> {Chroma_persist, RetrievalQA_from_chain_type})"
proof -
  assume run: "process_document env p d s = Some (r, s')"
  show ?thesis
  proof (cases "embeddings s")
    case None
    with run show ?thesis by (simp add: process_document_def)
  next
    case (Some emb)
    note emb = this
    show ?thesis
    proof (cases "llm_hub s")
      case None
      with run emb show ?thesis by (simp add: process_document_def)
    next
      case (Some l)
      let ?s1 = "s\<lparr>chat_history := []\<rparr>"
      let ?dir = "os_path_join (VECTOR_DB_DIR s) (or_empty d)"
      have c: "calls ?s1 = calls s" by simp
      consider (hit) "str_truthy d" "cached_index ?s1 ?dir"
          "load_cached env ?dir l emb ?s1 = (r, s')"
        | (miss) pd where "index_document env p pd l emb ?s1 = Some (r, s')"
        using run emb Some
        by (auto simp add: process_document_def Let_def split: if_splits)
      then show ?thesis
      proof cases
        case hit
        from load_cached_calls [OF hit(3)] c show ?thesis by auto
      next
        case miss
        from index_document_calls [OF miss] c show ?thesis by auto
      qed
    qed
  qed
qed

lemma process_document_never_runs_vision_body:
  assumes "process_document env p d s = Some (r, s')"
  shows "Vision_ocr q m dpi b \<notin> set (drop (length (calls s)) (calls s'))
       \<and> Llm_invoke content \<notin> set (drop (length (calls s)) (calls s'))"
  using process_document_calls [OF assms]
  by auto

lemma process_document_total: "\<exists>r s'. process_document env p d s = Some (r, s')"
  unfolding process_document_def index_document_def call_vision_zoom extract_result
  by (auto simp add: Let_def split: option.splits sum.splits prod.splits)

text \<open>
  C1 (the code at a failing input). \<open>scan.pdf\<close> has no selectable text, so extraction
  returns no document; \<open>process_document\<close> then calls \<open>_vision_ocr_pdf\<close> with the
  keyword \<open>zoom\<close>, which is not a parameter: the call raises TypeError and the body of
  the fallback never runs (the only call recorded is the extraction).
\<close>

theorem vision_fallback_call_raises_type_error:
  "fst (extract_selectable_text_documents sample_env ''scan.pdf'' ready_state) = Inr []
   \<and> process_document sample_env ''scan.pdf'' (Some ''d1'') ready_state =
       Some (Inl (TypeError (''_vision_ocr_pdf() got an unexpected keyword argument ''
                              @ [CHR 0x27] @ ''zoom'' @ [CHR 0x27])),
             ready_state\<lparr>calls := [Extract_selectable ''scan.pdf'']\<rparr>)"
  by code_simp


text \<open>
  C7. Every chunk list that \<open>process_document\<close> passes to \<open>Chroma.from_documents\<close>
  holds only chunks whose trimmed content is non-empty, and it is the concatenation,
  over the extracted documents in their order, of each document's non-blank pieces in
  split order.
\<close>

theorem indexed_chunks_nonblank_in_order:
  assumes "process_document env p d s = Some (r, s')"
    and "Chroma_from_documents chunks pd \<in> set (drop (length (calls s)) (calls s'))"
  shows "list_all (\<lambda>c. strip (page_content c) \<noteq> []) chunks
       \<and> (\<exists>pages. fitz_pages env p = Inr pages \<and>
            chunks = concat (map (\<lambda>doc. filter (\<lambda>c. strip (page_content c) \<noteq> [])
                                      (map (\<lambda>t. Document t (metadata doc))
                                         (split_text env (page_content doc))))
                          (extract_pages p 0 pages [])))"
  using process_document_calls [OF assms(1)] assms(2)
  by (auto simp add: list_all_iff split_documents_def filter_concat comp_def)

theorem indexed_chunks_nonblank_in_order_witness:
  "process_document cutting_env ''text.pdf'' None ready_state =
     Some (Inr ''indexed'',
           ready_state\<lparr>conversation_retrieval_chain :=
                          Some (RetrievalQA (ChatOpenAI ''gpt-4o-mini'' (1 / 10) 512)
                                  (Chroma_built text_pdf_pieces OpenAIEmbeddings None)),
                        calls := [Extract_selectable ''text.pdf'', Split_documents text_pdf_docs,
                                  Chroma_from_documents text_pdf_pieces None,
                                  RetrievalQA_from_chain_type]\<rparr>)
   \<and> list_all (\<lambda>c. strip (page_content c) \<noteq> []) text_pdf_pieces
   \<and> fitz_pages cutting_env ''text.pdf'' = Inr [Some ''Hello '', Some ''  '', Some ''World'']
   \<and> extract_pages ''text.pdf'' 0 [Some ''Hello '', Some ''  '', Some ''World''] [] = text_pdf_docs"
proof -
  have run: "process_document cutting_env ''text.pdf'' None ready_state =
     Some (Inr ''indexed'',
           ready_state\<lparr>conversation_retrieval_chain :=
                          Some (RetrievalQA (ChatOpenAI ''gpt-4o-mini'' (1 / 10) 512)
                                  (Chroma_built text_pdf_pieces OpenAIEmbeddings None)),
                        calls := [Extract_selectable ''text.pdf'', Split_documents text_pdf_docs,
                                  Chroma_from_documents text_pdf_pieces None,
                                  RetrievalQA_from_chain_type]\<rparr>)"
    by code_simp
  have ev: "Chroma_from_documents text_pdf_pieces None \<in>
              set (drop (length (calls ready_state))
                     (calls (ready_state\<lparr>conversation_retrieval_chain :=
                          Some (RetrievalQA (ChatOpenAI ''gpt-4o-mini'' (1 / 10) 512)
                                  (Chroma_built text_pdf_pieces OpenAIEmbeddings None)),
                        calls := [Extract_selectable ''text.pdf'', Split_documents text_pdf_docs,
                                  Chroma_from_documents text_pdf_pieces None,
                                  RetrievalQA_from_chain_type]\<rparr>)))"
    by (simp add: ready_state_def fresh_state_def)
  have pg: "fitz_pages cutting_env ''text.pdf'' = Inr [Some ''Hello '', Some ''  '', Some ''World'']"
    by (simp add: cutting_env_def sample_env_def)
  have ex: "extract_pages ''text.pdf'' 0 [Some ''Hello '', Some ''  '', Some ''World''] [] = text_pdf_docs"
    by code_simp
  show ?thesis
    using indexed_chunks_nonblank_in_order [OF run ev] run pg ex
    by simp
qed


section \<open>The disk only grows\<close>

lemma cached_index_makedirs:
  "cached_index s pd \<Longrightarrow> cached_index (s\<lparr>dirs := makedirs q (dirs s)\<rparr>) pd"
  by (auto simp add: cached_index_def makedirs_def update_conv' split: option.splits)

lemma cached_index_write_entries:
  "cached_index s pd \<Longrightarrow> cached_index (s\<lparr>dirs := write_entries q new (dirs s)\<rparr>) pd"
  by (auto simp add: cached_index_def write_entries_def update_conv' split: option.splits)

lemma cached_index_written:
  "new \<noteq> [] \<Longrightarrow> cached_index (s\<lparr>dirs := write_entries q new (dirs s)\<rparr>) q"
  by (auto simp add: cached_index_def write_entries_def update_conv' split: option.splits)

lemma cached_index_cong:
  "dirs s' = dirs s \<Longrightarrow> cached_index s' pd = cached_index s pd"
  by (simp add: cached_index_def)





lemma process_document_cases:
  assumes "process_document env p d s = Some (r, s')"
  obtains (uninit) "llm_hub s = None \<or> embeddings s = None" and "s' = s"
      and "r = Inl (RuntimeError ''LLM/Embeddings not initialized. Call init_llm() first.'')"
    | (hit) l emb where "llm_hub s = Some l" and "embeddings s = Some emb" and "str_truthy d"
      and "cached_index s (os_path_join (VECTOR_DB_DIR s) (or_empty d))"
      and "load_cached env (os_path_join (VECTOR_DB_DIR s) (or_empty d)) l emb
             (s\<lparr>chat_history := []\<rparr>) = (r, s')"
    | (miss) l emb where "llm_hub s = Some l" and "embeddings s = Some emb"
      and "\<not> (str_truthy d \<and> cached_index s (os_path_join (VECTOR_DB_DIR s) (or_empty d)))"
      and "index_document env p
             (if str_truthy d then Some (os_path_join (VECTOR_DB_DIR s) (or_empty d)) else None)
             l emb (s\<lparr>chat_history := []\<rparr>) = Some (r, s')"
proof (cases "embeddings s")
  case None
  from assms None
  have a: "llm_hub s = None \<or> embeddings s = None" and b: "s' = s"
    and c: "r = Inl (RuntimeError ''LLM/Embeddings not initialized. Call init_llm() first.'')"
    by (simp_all add: process_document_def)
  from a b c show ?thesis by (rule uninit)
next
  case (Some emb)
  note emb = this
  show ?thesis
  proof (cases "llm_hub s")
    case None
    from assms None emb
    have a: "llm_hub s = None \<or> embeddings s = None" and b: "s' = s"
      and c: "r = Inl (RuntimeError ''LLM/Embeddings not initialized. Call init_llm() first.'')"
      by (simp_all add: process_document_def)
    from a b c show ?thesis by (rule uninit)
  next
    case (Some l)
    note l = this
    let ?dir = "os_path_join (VECTOR_DB_DIR s) (or_empty d)"
    show ?thesis
    proof (cases "str_truthy d \<and> cached_index s ?dir")
      case True
      then have t: "str_truthy d" and c: "cached_index s ?dir"
        by simp_all
      have run: "load_cached env ?dir l emb (s\<lparr>chat_history := []\<rparr>) = (r, s')"
        using assms emb l t c
        by (simp add: process_document_def Let_def cached_index_def)
      from l emb t c run show ?thesis by (rule hit)
    next
      case False
      have run: "index_document env p (if str_truthy d then Some ?dir else None)
             l emb (s\<lparr>chat_history := []\<rparr>) = Some (r, s')"
        using assms emb l False
        by (simp add: process_document_def Let_def cached_index_def split: if_splits)
      from l emb False run show ?thesis by (rule miss)
    qed
  qed
qed








lemma index_document_status:
  "index_document env p pd l emb s = Some (Inr r, s') \<Longrightarrow> r = ''indexed''"
  unfolding index_document_def call_vision_zoom extract_result
  by (auto simp add: build_index_def Let_def set_chain_def split: sum.splits if_splits option.splits)


lemma process_document_cached_iff:
  "(\<exists>s'. process_document env p d s = Some (Inr ''cached'', s')) =
     (\<exists>l emb. llm_hub s = Some l \<and> embeddings s = Some emb \<and> str_truthy d
        \<and> cached_index s (os_path_join (VECTOR_DB_DIR s) (or_empty d))
        \<and> snd (chroma_load env (os_path_join (VECTOR_DB_DIR s) (or_empty d))) = None
        \<and> chain_build env (Chroma_open (os_path_join (VECTOR_DB_DIR s) (or_empty d)) emb) = None)"
  (is "?lhs = ?rhs")
proof
  assume ?lhs
  then obtain s' where run: "process_document env p d s = Some (Inr ''cached'', s')"
    by blast
  from run show ?rhs
  proof (cases rule: process_document_cases)
    case uninit
    then show ?thesis by simp
  next
    case (hit l emb)
    from hit(5) have "snd (chroma_load env (os_path_join (VECTOR_DB_DIR s) (or_empty d))) = None
        \<and> chain_build env (Chroma_open (os_path_join (VECTOR_DB_DIR s) (or_empty d)) emb) = None"
      by (auto simp add: load_cached_def Let_def set_chain_def split: option.splits)
    with hit show ?thesis by blast
  next
    case (miss l emb)
    from index_document_status [OF miss(4)] show ?thesis by simp
  qed
next
  assume ?rhs
  then obtain l emb where l: "llm_hub s = Some l" and e: "embeddings s = Some emb"
    and t: "str_truthy d"
    and c: "cached_index s (os_path_join (VECTOR_DB_DIR s) (or_empty d))"
    and o: "snd (chroma_load env (os_path_join (VECTOR_DB_DIR s) (or_empty d))) = None"
    and b: "chain_build env (Chroma_open (os_path_join (VECTOR_DB_DIR s) (or_empty d)) emb) = None"
    by blast
  from t obtain d' where d: "d = Some d'" and ne: "d' \<noteq> []"
    by (cases d) auto
  from process_document_hit [OF l e ne, of env p] c
    load_cached_returns [OF o b, of l "s\<lparr>chat_history := []\<rparr>"]
  show ?lhs by (simp add: d)
qed




section \<open>The fingerprint\<close>

lemma read_blocks_all: "read_blocks h rest = h @ rest"
proof (induction h rest rule: read_blocks.induct)
  case (1 h rest)
  show ?case
  proof (cases "take (1024 * 1024) rest = []")
    case True
    then show ?thesis by (simp add: read_blocks.simps)
  next
    case False
    then have "read_blocks h rest = read_blocks (h @ take (1024 * 1024) rest) (drop (1024 * 1024) rest)"
      by (subst read_blocks.simps) simp
    also have "\<dots> = (h @ take (1024 * 1024) rest) @ drop (1024 * 1024) rest"
      using "1.IH" [OF False] .
    finally show ?thesis by simp
  qed
qed

lemma hex_char_hex: "hex_char d \<in> set ''0123456789abcdef''"
  unfolding hex_char_def by (rule nth_mem) simp

lemma hexdigest_hex:
  "length (hexdigest env h) = 64 \<and> list_all (\<lambda>c. c \<in> set ''0123456789abcdef'') (hexdigest env h)"
  unfolding hexdigest_def list_all_iff
  using hex_char_hex by auto

text \<open>
  C4. Two files with the same bytes get the same identifier from \<open>sha256_file\<close>,
  whatever their paths; the identifier is a string of 64 hexadecimal digits; and
  whether \<open>process_document\<close> answers \<open>cached\<close> for that identifier does not depend
  on the path of the document: the identifier alone selects the persist directory.
\<close>

theorem fingerprint_depends_on_bytes_only:
  assumes "file_bytes env p1 = Some bytes" and "file_bytes env p2 = Some bytes"
  shows "sha256_file env p1 = sha256_file env p2
       \<and> (\<exists>ident. sha256_file env p1 = Inr ident \<and> length ident = 64
             \<and> list_all (\<lambda>c. c \<in> set ''0123456789abcdef'') ident
             \<and> (\<exists>s1. process_document env1 q1 (Some ident) s = Some (Inr ''cached'', s1)) =
                 (\<exists>s2. process_document env1 q2 (Some ident) s = Some (Inr ''cached'', s2)))"
  using assms hexdigest_hex [of env bytes]
  by (simp add: sha256_file_def read_blocks_all process_document_cached_iff)

theorem fingerprint_depends_on_bytes_only_witness:
  "file_bytes sample_env ''a.pdf'' = Some [1, 2, 3]
   \<and> file_bytes sample_env ''b.pdf'' = Some [1, 2, 3]
   \<and> sha256_file sample_env ''a.pdf'' = sha256_file sample_env ''b.pdf''
   \<and> sha256_file sample_env ''a.pdf'' =
       Inr ''0000000000000000000000000000000000000000000000000000000000000003''"
proof -
  have a: "file_bytes sample_env ''a.pdf'' = Some [1, 2, 3]"
    and b: "file_bytes sample_env ''b.pdf'' = Some [1, 2, 3]"
    by (simp_all add: sample_env_def)
  have hx: "hexdigest sample_env [1, 2, 3] =
              ''0000000000000000000000000000000000000000000000000000000000000003''"
    by code_simp
  have v: "sha256_file sample_env ''a.pdf'' =
       Inr ''0000000000000000000000000000000000000000000000000000000000000003''"
    by (simp add: sha256_file_def a read_blocks_all hx)
  have e: "sha256_file sample_env ''a.pdf'' = sha256_file sample_env ''b.pdf''"
    using fingerprint_depends_on_bytes_only [OF a b] by simp
  show ?thesis
    by (intro conjI a b e v)
qed

section \<open>The vision fallback and a reply that is not the expected JSON\<close>

lemma items_loop_extends: "\<exists>more. fst (items_loop p zs docs) = docs @ more"
proof (induction zs arbitrary: docs)
  case Nil
  then show ?case by simp
next
  case (Cons z zs)
  obtain item idx where z: "z = (item, idx)" by (cases z)
  show ?case
  proof (cases "py_get item ''text'' PNone")
    case None
    then show ?thesis by (simp add: z)
  next
    case (Some v)
    show ?thesis
    proof (cases "or_empty_strip v")
      case None
      then show ?thesis by (simp add: z Some)
    next
      case (Some t)
      from Cons.IH [of "if t \<noteq> [] then docs @ [Document t [(''page'', MInt (idx + 1)), (''source'', MStr p), (''ocr'', MStr ''vision'')]] else docs"]
      show ?thesis
        using \<open>py_get item ''text'' PNone = Some v\<close> Some
        by (auto simp add: z)
    qed
  qed
qed

lemma try_parse_extends: "\<exists>more. fst (try_parse env p idxs raw docs) = docs @ more"
  using items_loop_extends
  by (auto simp add: try_parse_def split: option.splits)

lemma parse_batch_extends: "\<exists>more. parse_batch env p b e idxs raw docs = docs @ more"
proof -
  obtain more where m: "fst (try_parse env p idxs raw docs) = docs @ more"
    using try_parse_extends by blast
  obtain d1 raised where t: "try_parse env p idxs raw docs = (d1, raised)"
    by (cases "try_parse env p idxs raw docs")
  with m have "d1 = docs @ more" by simp
  then show ?thesis
    by (cases raised) (simp_all add: parse_batch_def t)
qed

lemma unparseable_reply_raises:
  "json_loads env raw = None \<Longrightarrow> snd (try_parse env p idxs raw docs)"
  by (simp add: try_parse_def)

text \<open>
  When an exception leaves the \<open>try\<close> block: \<open>json.loads\<close> raises, or the value is no
  dict, or its \<open>pages\<close> cannot be iterated, or one of the items paired with a page is
  no dict or holds under \<open>text\<close> a truthy value that is no string.
\<close>

lemma items_loop_raises_iff:
  "snd (items_loop p zs docs) =
     list_ex (\<lambda>z. case py_get (fst z) ''text'' PNone of
                     None \<Rightarrow> True
                   | Some v \<Rightarrow> or_empty_strip v = None) zs"
proof (induction zs arbitrary: docs)
  case Nil
  then show ?case by simp
next
  case (Cons z zs)
  obtain item idx where z: "z = (item, idx)" by (cases z)
  show ?case
    using Cons.IH by (simp add: z split: option.splits)
qed

lemma try_parse_raises_iff:
  "snd (try_parse env p idxs raw docs) =
     (case json_loads env raw of
        None \<Rightarrow> True
      | Some data \<Rightarrow>
          (case py_get data ''pages'' (PList []) of
             None \<Rightarrow> True
           | Some pages \<Rightarrow>
               (case py_iter pages of
                  None \<Rightarrow> True
                | Some items \<Rightarrow>
                    list_ex (\<lambda>z. case py_get (fst z) ''text'' PNone of
                                    None \<Rightarrow> True
                                  | Some v \<Rightarrow> or_empty_strip v = None)
                      (zip items idxs))))"
  by (simp add: try_parse_def items_loop_raises_iff split: option.splits)

lemma vision_loop_extends_aux:
  "vision_loop env p dpi bs n b docs s = Some y \<Longrightarrow>
     (case fst y of Inl e \<Rightarrow> True | Inr out \<Rightarrow> \<exists>more. out = docs @ more)"
proof (induction rule: vision_loop.raw_induct [rotated 1, consumes 1, case_names step])
  case (step vl env p dpi bs n b docs s y)
  show ?case
  proof (cases "b < n")
    case False
    with step.hyps show ?thesis by auto
  next
    case True
    let ?e = "min (b + bs) n"
    let ?idxs = "[b..?e - 1]"
    show ?thesis
    proof (cases "render_pages env p dpi ?idxs [Text_part ocr_prompt]")
      case (Inl e)
      with True step.hyps show ?thesis by (auto simp add: Let_def)
    next
      case (Inr content)
      show ?thesis
      proof (cases "llm_reply env (calls s) content")
        case (Inl e)
        with True Inr step.hyps show ?thesis by (auto simp add: Let_def)
      next
        case (Inr resp)
        let ?docs1 = "parse_batch env p b ?e ?idxs (strip (or_empty resp)) docs"
        from True \<open>render_pages env p dpi ?idxs [Text_part ocr_prompt] = Inr content\<close> Inr step.hyps
        have "vl env p dpi bs n ?e ?docs1 (record_call (Llm_invoke content) s) = Some y"
          by (simp add: Let_def)
        from step.IH [OF this]
        have ih: "case fst y of Inl e \<Rightarrow> True | Inr out \<Rightarrow> \<exists>more. out = ?docs1 @ more" .
        obtain more1 where "?docs1 = docs @ more1"
          using parse_batch_extends by blast
        with ih show ?thesis
          by (auto split: sum.splits)
      qed
    qed
  qed
qed

lemma vision_loop_extends:
  assumes "vision_loop env p dpi bs n b docs s = Some (Inr out, s')"
  shows "\<exists>more. out = docs @ more"
  using vision_loop_extends_aux [OF assms] by simp

lemma render_pages_ok:
  assumes "\<forall>idx. \<exists>url. render_jpeg env p dpi idx = Inr url"
  shows "\<exists>content. render_pages env p dpi idxs c = Inr content"
proof (induction idxs arbitrary: c)
  case Nil
  then show ?case by simp
next
  case (Cons idx idxs)
  from assms obtain url where "render_jpeg env p dpi idx = Inr url" by blast
  with Cons.IH [of "c @ [Image_url url]"] show ?case by simp
qed

lemma vision_loop_returns:
  assumes "0 < bs"
    and "\<forall>idx. \<exists>url. render_jpeg env p dpi idx = Inr url"
    and "\<forall>h c. \<exists>resp. llm_reply env h c = Inr resp"
  shows "\<exists>out s'. vision_loop env p dpi bs n b docs s = Some (Inr out, s')"
proof (induction "nat (n - b)" arbitrary: b docs s rule: less_induct)
  case less
  show ?case
  proof (cases "b < n")
    case False
    then show ?thesis by (subst vision_loop.simps) simp
  next
    case True
    let ?e = "min (b + bs) n"
    let ?idxs = "[b..?e - 1]"
    obtain content where c: "render_pages env p dpi ?idxs [Text_part ocr_prompt] = Inr content"
      using render_pages_ok [OF assms(2)] by blast
    obtain resp where r: "llm_reply env (calls s) content = Inr resp"
      using assms(3) by blast
    have "nat (n - ?e) < nat (n - b)"
      using True assms(1) by auto
    from less [OF this]
    obtain out s' where
      "vision_loop env p dpi bs n ?e (parse_batch env p b ?e ?idxs (strip (or_empty resp)) docs)
         (record_call (Llm_invoke content) s) = Some (Inr out, s')"
      by blast
    with True c r show ?thesis
      by (subst vision_loop.simps) (simp add: Let_def)
  qed
qed

text \<open>
  C5 (as amended). Take any batch of the loop of \<open>_vision_ocr_pdf\<close> whose pages render
  and whose model call returns. If the trimmed reply is non-empty and an exception
  leaves the \<open>try\<close> block on it, the handler appends one document holding the raw
  reply, tagged \<open>ocr = vision_raw\<close> with \<open>page_range\<close> from the first to the last page
  of the batch, and the loop goes on with the next batch: the exception is not raised
  further. When the function returns, that document is in its result; and it does
  return when \<open>batch_size\<close> is positive and every rendering and model call returns.
\<close>

theorem nonempty_malformed_reply_kept_raw:
  assumes "batch_start < pages_to_process"
    and "batch_end = min (batch_start + batch_size) pages_to_process"
    and "batch_indices = [batch_start..batch_end - 1]"
    and "render_pages env pdf_path dpi batch_indices [Text_part ocr_prompt] = Inr content"
    and "llm_reply env (calls s) content = Inr resp"
    and "raw = strip (or_empty resp)"
    and "raw \<noteq> []"
    and "snd (try_parse env pdf_path batch_indices raw docs)"
    and "raw_doc = Document raw
           [(''page_range'', MStr (str_int (batch_start + 1) @ ''-'' @ str_int batch_end)),
            (''source'', MStr pdf_path), (''ocr'', MStr ''vision_raw'')]"
  shows "vision_loop env pdf_path dpi batch_size pages_to_process batch_start docs s =
           vision_loop env pdf_path dpi batch_size pages_to_process batch_end
             (fst (try_parse env pdf_path batch_indices raw docs) @ [raw_doc])
             (record_call (Llm_invoke content) s)
       \<and> (\<forall>out s'. vision_loop env pdf_path dpi batch_size pages_to_process batch_start docs s =
                      Some (Inr out, s') \<longrightarrow> raw_doc \<in> set out)
       \<and> (0 < batch_size \<and> (\<forall>idx. \<exists>url. render_jpeg env pdf_path dpi idx = Inr url)
              \<and> (\<forall>h c. \<exists>r. llm_reply env h c = Inr r) \<longrightarrow>
            (\<exists>out s'. vision_loop env pdf_path dpi batch_size pages_to_process batch_start docs s =
                        Some (Inr out, s') \<and> raw_doc \<in> set out))"
proof -
  obtain d1 where t: "try_parse env pdf_path batch_indices raw docs = (d1, True)"
    using assms(8) by (cases "try_parse env pdf_path batch_indices raw docs") auto
  have pb: "parse_batch env pdf_path batch_start batch_end batch_indices raw docs = d1 @ [raw_doc]"
    using assms(7) by (simp add: parse_batch_def t assms(9))
  have step: "vision_loop env pdf_path dpi batch_size pages_to_process batch_start docs s =
           vision_loop env pdf_path dpi batch_size pages_to_process batch_end
             (d1 @ [raw_doc]) (record_call (Llm_invoke content) s)"
    using assms(1) assms(4) assms(5) pb
    by (subst vision_loop.simps)
       (simp add: Let_def assms(2) [symmetric] assms(3) [symmetric] assms(6) [symmetric])
  have kept: "raw_doc \<in> set out"
    if "vision_loop env pdf_path dpi batch_size pages_to_process batch_start docs s = Some (Inr out, s')"
    for out s'
  proof -
    from that step
    have "vision_loop env pdf_path dpi batch_size pages_to_process batch_end
             (d1 @ [raw_doc]) (record_call (Llm_invoke content) s) = Some (Inr out, s')"
      by simp
    from vision_loop_extends [OF this] show ?thesis by auto
  qed
  have returns: "\<exists>out s'. vision_loop env pdf_path dpi batch_size pages_to_process batch_start docs s =
                        Some (Inr out, s') \<and> raw_doc \<in> set out"
    if "0 < batch_size" and "\<forall>idx. \<exists>url. render_jpeg env pdf_path dpi idx = Inr url"
      and "\<forall>h c. \<exists>r. llm_reply env h c = Inr r"
  proof -
    from vision_loop_returns [OF that]
    obtain out s' where
      "vision_loop env pdf_path dpi batch_size pages_to_process batch_start docs s = Some (Inr out, s')"
      by blast
    with kept show ?thesis by blast
  qed
  show ?thesis
    using step kept returns by (simp add: t)
qed

theorem nonempty_malformed_reply_kept_raw_witness:
  "render_pages sample_env ''scan.pdf'' 140 [0..1] [Text_part ocr_prompt] = Inr scan_pdf_content
   \<and> llm_reply sample_env [Vision_ocr ''scan.pdf'' 20 140 3] scan_pdf_content = Inr (Some ''not json'')
   \<and> strip ''not json'' = ''not json''
   \<and> json_loads sample_env ''not json'' = None
   \<and> snd (try_parse sample_env ''scan.pdf'' [0..1] ''not json'' [])
   \<and> vision_ocr_pdf sample_env ''scan.pdf'' 20 140 3 ready_state =
       Some (Inr [not_json_doc],
             ready_state\<lparr>calls := [Vision_ocr ''scan.pdf'' 20 140 3, Llm_invoke scan_pdf_content]\<rparr>)
   \<and> not_json_doc \<in> set [not_json_doc]"
proof -
  let ?s = "ready_state\<lparr>calls := [Vision_ocr ''scan.pdf'' 20 140 3]\<rparr>"
  have h1: "(0::int) < 2"
    by simp
  have h2: "(2::int) = min (0 + 3) 2"
    by simp
  have h3: "[0..1] = [0..(2::int) - 1]"
    by simp
  have h4: "render_pages sample_env ''scan.pdf'' 140 [0..1] [Text_part ocr_prompt] = Inr scan_pdf_content"
    by code_simp
  have h5: "llm_reply sample_env (calls ?s) scan_pdf_content = Inr (Some ''not json'')"
    by (simp add: sample_env_def)
  have st: "strip ''not json'' = ''not json''"
    by code_simp
  have h6: "''not json'' = strip (or_empty (Some ''not json''))"
    by (simp add: st)
  have h7: "''not json'' \<noteq> []"
    by simp
  have j: "json_loads sample_env ''not json'' = None"
    by (simp add: sample_env_def)
  have h8: "snd (try_parse sample_env ''scan.pdf'' [0..1] ''not json'' [])"
    by (simp add: try_parse_def j)
  have h9: "not_json_doc = Document ''not json''
           [(''page_range'', MStr (str_int (0 + 1) @ ''-'' @ str_int 2)),
            (''source'', MStr ''scan.pdf''), (''ocr'', MStr ''vision_raw'')]"
    by code_simp
  have run: "vision_ocr_pdf sample_env ''scan.pdf'' 20 140 3 ready_state =
       Some (Inr [not_json_doc],
             ready_state\<lparr>calls := [Vision_ocr ''scan.pdf'' 20 140 3, Llm_invoke scan_pdf_content]\<rparr>)"
    by code_simp
  have loop: "vision_loop sample_env ''scan.pdf'' 140 3 2 0 [] ?s =
       Some (Inr [not_json_doc],
             ready_state\<lparr>calls := [Vision_ocr ''scan.pdf'' 20 140 3, Llm_invoke scan_pdf_content]\<rparr>)"
    by code_simp
  have m: "not_json_doc \<in> set [not_json_doc]"
    using nonempty_malformed_reply_kept_raw [OF h1 h2 h3 h4 h5 h6 h7 h8 h9] loop
    by blast
  have l: "llm_reply sample_env [Vision_ocr ''scan.pdf'' 20 140 3] scan_pdf_content = Inr (Some ''not json'')"
    by (simp add: sample_env_def)
  show ?thesis
    by (intro conjI h4 l st j h8 run m)
qed

theorem reply_leaves_batch_empty_counterexample:
  "llm_reply blank_reply_env [Vision_ocr ''scan.pdf'' 20 140 3] scan_pdf_content = Inr (Some ''  '')
   \<and> strip ''  '' = []
   \<and> json_loads blank_reply_env [] = None
   \<and> vision_ocr_pdf blank_reply_env ''scan.pdf'' 20 140 3 ready_state =
       Some (Inr [],
             ready_state\<lparr>calls := [Vision_ocr ''scan.pdf'' 20 140 3, Llm_invoke scan_pdf_content]\<rparr>)
   \<and> llm_reply empty_object_env [Vision_ocr ''scan.pdf'' 20 140 3] scan_pdf_content = Inr (Some ''{}'')
   \<and> strip ''{}'' = ''{}''
   \<and> json_loads empty_object_env ''{}'' = Some (PDict [])
   \<and> try_parse empty_object_env ''scan.pdf'' [0..1] ''{}'' [] = ([], False)
   \<and> vision_ocr_pdf empty_object_env ''scan.pdf'' 20 140 3 ready_state =
       Some (Inr [],
             ready_state\<lparr>calls := [Vision_ocr ''scan.pdf'' 20 140 3, Llm_invoke scan_pdf_content]\<rparr>)"
  by code_simp

end
